theory Spec2Isabelle
  imports Main "HOL-Library.Sublist"
begin

section \<open>JavaScript primitives used by folder2sprite.jsx\<close>

text \<open>
  Strings are character lists. File names and configuration strings are taken to be
  ASCII texts: \<open>toLowerCase\<close> maps the letters A to Z to a to z and leaves every other
  character alone.
\<close>

definition lower_char :: "char \<Rightarrow> char" where
  "lower_char c =
     (case map_of (zip ''ABCDEFGHIJKLMNOPQRSTUVWXYZ'' ''abcdefghijklmnopqrstuvwxyz'') c of
        Some l \<Rightarrow> l
      | None \<Rightarrow> c)"

definition toLowerCase :: "string \<Rightarrow> string" where
  "toLowerCase s = map lower_char s"

text \<open>
  \<open>s.indexOf(pat)\<close>: the position of the first occurrence of \<open>pat\<close> in \<open>s\<close>,
  or \<open>-1\<close> when there is none.
\<close>

fun indexOf :: "string \<Rightarrow> string \<Rightarrow> int" where
  "indexOf [] pat = (if pat = [] then 0 else - 1)"
| "indexOf (c # cs) pat =
     (if prefix pat (c # cs) then 0
      else (let r = indexOf cs pat in if r = - 1 then - 1 else r + 1))"

text \<open>
  \<open>s.lastIndexOf(pat)\<close>: the position of the last occurrence of \<open>pat\<close> in \<open>s\<close>,
  or \<open>-1\<close> when there is none.
\<close>

fun lastIndexOf :: "string \<Rightarrow> string \<Rightarrow> int" where
  "lastIndexOf [] pat = (if pat = [] then 0 else - 1)"
| "lastIndexOf (c # cs) pat =
     (let r = lastIndexOf cs pat in
      if r \<noteq> - 1 then r + 1
      else if prefix pat (c # cs) then 0 else - 1)"

text \<open>
  \<open>s.substring(from, to)\<close> for \<open>from \<le> to\<close>: a negative index counts as 0 and an
  index beyond the end as the length.
\<close>

definition substring :: "string \<Rightarrow> int \<Rightarrow> int \<Rightarrow> string" where
  "substring s from to = drop (nat from) (take (nat to) s)"

text \<open>
  \<open>a % b\<close> on integral numbers: \<open>NaN\<close> (here \<open>None\<close>) when the divisor is 0,
  otherwise the remainder of the truncating division, which has the sign of \<open>a\<close>.
\<close>

definition js_rem :: "int \<Rightarrow> int \<Rightarrow> int option" where
  "js_rem a b = (if b = 0 then None else Some (sgn a * (\<bar>a\<bar> mod \<bar>b\<bar>)))"

text \<open>\<open>$.write\<close> and \<open>$.writeln\<close>, as the text they add to the console.\<close>

definition console_write :: "string \<Rightarrow> string" where
  "console_write s = s"

definition console_writeln :: "string \<Rightarrow> string" where
  "console_writeln s = s @ [CHR 0x0A]"


section \<open>User variables\<close>

text \<open>
  The five variables a user sets at the top of the script. The limit and the two spacings
  are taken to be whole numbers; the script reads all five and checks none of them.
\<close>

record config =
  LAYOUT :: string
  LIMIT :: int
  COL_SPACING :: int
  ROW_SPACING :: int
  OUTPUT_FORMAT :: string

text \<open>The values the script ships with.\<close>

definition default_config :: config where
  "default_config =
     \<lparr>LAYOUT = ''cols'', LIMIT = 1, COL_SPACING = 100, ROW_SPACING = 50,
      OUTPUT_FORMAT = ''css''\<rparr>"


section \<open>The host's documents, layers and files\<close>

text \<open>
  Lengths are whole pixels. The bounds of a layer are its left, top, right and bottom
  edge, \<open>bounds[0]\<close> to \<open>bounds[3]\<close> in the script. The layers of a document are listed
  from the topmost one (index 0) to the bottommost one.
\<close>

type_synonym bounds = "int \<times> int \<times> int \<times> int"

record layer =
  name :: string
  bounds :: bounds

record document =
  doc_name :: string
  width :: int
  height :: int
  layers :: "layer list"

text \<open>
  An image file on disk: its name and, when the host can open it, the bounds of the
  artwork of its active layer.
\<close>

record image_file =
  file_name :: string
  art :: "bounds option"

text \<open>What \<open>folder.getFiles()\<close> lists: files and subfolders.\<close>

datatype entry = File image_file | Folder string

datatype error = ImageOpenError | TypeError


section \<open>isValidFile\<close>

definition supported_types :: "string list" where
  "supported_types = [''.jpg'', ''.jpeg'', ''.gif'', ''.png'', ''.tif'']"

function isValidFile_loop :: "string \<Rightarrow> nat \<Rightarrow> bool" where
  "isValidFile_loop filename i =
     (if i < length supported_types then
        (if indexOf filename (supported_types ! i) \<noteq> - 1 then True
         else isValidFile_loop filename (i + 1))
      else False)"
  by pat_completeness auto
termination
  by (relation "measure (\<lambda>(filename, i). length supported_types - i)") auto

declare isValidFile_loop.simps [simp del]

definition isValidFile :: "string \<Rightarrow> bool" where
  "isValidFile filename = isValidFile_loop filename 0"

text \<open>
  The test of \<open>createSprite\<close> on a directory entry:
  \<open>(image_file instanceof File) && isValidFile(image_file.name.toLowerCase())\<close>.
\<close>

fun valid_image :: "entry \<Rightarrow> bool" where
  "valid_image (File image_file) = isValidFile (toLowerCase (file_name image_file))"
| "valid_image (Folder folder_name) = False"



section \<open>JavaScript numbers as text\<close>

text \<open>
  \<open>toString\<close> of a length: the host prints the decimal number, a space and the unit,
  for instance \<open>100 px\<close>; the script then deletes the spaces with
  \<open>.split(' ').join('')\<close>.
\<close>

definition digit_char :: "nat \<Rightarrow> char" where
  "digit_char d = ''0123456789'' ! d"

fun digits :: "nat \<Rightarrow> string" where
  "digits n = (if n < 10 then [digit_char n] else digits (n div 10) @ [digit_char (n mod 10)])"

declare digits.simps [simp del]

definition toString :: "int \<Rightarrow> string" where
  "toString v = (if v < 0 then ''-'' @ digits (nat (- v)) else digits (nat v)) @ '' px''"

definition split_join :: "string \<Rightarrow> string" where
  "split_join s = filter (\<lambda>c. c \<noteq> CHR '' '') s"


section \<open>createCanvas\<close>

text \<open>
  \<open>documents.add\<close> gives a transparent document with one empty layer; the ruler units
  are changed for the call and restored after it.
\<close>

definition createCanvas :: document where
  "createCanvas =
     (let document_name = ''sprite'';
          document_width = 10000;
          document_height = 10000
      in \<lparr>doc_name = document_name, width = document_width, height = document_height,
          layers = [\<lparr>name = ''Layer 1'', bounds = (0, 0, 0, 0)\<rparr>]\<rparr>)"


section \<open>addLayer\<close>

definition translate :: "layer \<Rightarrow> int \<Rightarrow> int \<Rightarrow> layer" where
  "translate l dx dy =
     (case bounds l of
        (left_edge, top_edge, right_edge, bottom_edge) \<Rightarrow>
          l\<lparr>bounds := (left_edge + dx, top_edge + dy, right_edge + dx, bottom_edge + dy)\<rparr>)"

text \<open>
  The image is opened (which fails when the host cannot read it), its active layer is
  duplicated to the beginning of the destination's layers, where it is the active layer of
  the destination, and the image is closed again. The new layer is named after the image
  and moved to the origin, then to \<open>coordinates\<close>.
\<close>

definition addLayer :: "image_file \<Rightarrow> document \<Rightarrow> int \<times> int \<Rightarrow> error + document" where
  "addLayer source_image destination_doc coordinates =
     (case art source_image of
        None \<Rightarrow> Inl ImageOpenError
      | Some art_bounds \<Rightarrow>
          (let doc_name = file_name source_image;
               destination_layer =
                 \<lparr>name = substring doc_name 0 (lastIndexOf doc_name ''.''), bounds = art_bounds\<rparr>;
               left_offset = fst (bounds destination_layer) * - 1;
               top_offset = fst (snd (bounds destination_layer)) * - 1;
               destination_layer = translate destination_layer left_offset top_offset;
               destination_layer = translate destination_layer (fst coordinates) (snd coordinates)
           in Inr (destination_doc\<lparr>layers := destination_layer # layers destination_doc\<rparr>)))"


section \<open>cleanUp\<close>

text \<open>
  \<open>revealAll\<close> grows the canvas until it holds the artwork of every layer, and
  \<open>trim\<close> crops it to the artwork; both keep the layers and their order, and bounds are
  measured from the top left corner of the canvas, so they shift with it.
\<close>

definition revealAll :: "document \<Rightarrow> document" where
  "revealAll doc =
     (let ls = layers doc;
          x0 = fold min (map (\<lambda>l. fst (bounds l)) ls) 0;
          y0 = fold min (map (\<lambda>l. fst (snd (bounds l))) ls) 0;
          x1 = fold max (map (\<lambda>l. fst (snd (snd (bounds l)))) ls) (width doc);
          y1 = fold max (map (\<lambda>l. snd (snd (snd (bounds l)))) ls) (height doc)
      in doc\<lparr>width := x1 - x0, height := y1 - y0,
             layers := map (\<lambda>l. translate l (- x0) (- y0)) ls\<rparr>)"

definition trim :: "document \<Rightarrow> document" where
  "trim doc =
     (case layers doc of
        [] \<Rightarrow> doc
      | l # ls \<Rightarrow>
          (let x0 = fold min (map (\<lambda>l. fst (bounds l)) ls) (fst (bounds l));
               y0 = fold min (map (\<lambda>l. fst (snd (bounds l))) ls) (fst (snd (bounds l)));
               x1 = fold max (map (\<lambda>l. fst (snd (snd (bounds l)))) ls) (fst (snd (snd (bounds l))));
               y1 = fold max (map (\<lambda>l. snd (snd (snd (bounds l)))) ls) (snd (snd (snd (bounds l))))
           in doc\<lparr>width := x1 - x0, height := y1 - y0,
                  layers := map (\<lambda>l. translate l (- x0) (- y0)) (l # ls)\<rparr>))"

text \<open>The layer at index \<open>layers.length - 1\<close> is removed; zooming changes nothing here.\<close>

definition cleanUp :: "document \<Rightarrow> document" where
  "cleanUp doc = trim (revealAll (doc\<lparr>layers := butlast (layers doc)\<rparr>))"


section \<open>outputCoordinates\<close>

definition json_line :: "layer \<Rightarrow> string" where
  \<open>json_line l =
     ''{"layer": "'' @ name l @ ''", "x": "'' @ split_join (toString (fst (bounds l)))
       @ ''", "y": "-'' @ split_join (toString (fst (snd (bounds l)))) @ ''"}''\<close>

definition css_line :: "layer \<Rightarrow> string" where
  "css_line l =
     ''.'' @ name l @ '' {'' @ ''background-position: '' @ ''-''
       @ split_join (toString (fst (bounds l))) @ '' -''
       @ split_join (toString (fst (snd (bounds l)))) @ '';'' @ ''}''"

text \<open>The loop \<open>for (i = doc.layers.length - 1; i >= limit; i--)\<close> with \<open>limit = 0\<close>.\<close>

function outputCoordinates_loop :: "string \<Rightarrow> document \<Rightarrow> int \<Rightarrow> string" where
  "outputCoordinates_loop format doc i =
     (if i \<ge> 0 then
        (if format = ''json'' then
           console_writeln (json_line (layers doc ! nat i))
             @ (if i > 0 then console_write '','' else [])
         else console_writeln (css_line (layers doc ! nat i)))
          @ outputCoordinates_loop format doc (i - 1)
      else [])"
  by pat_completeness auto
termination
  by (relation "measure (\<lambda>(format, doc, i). nat (i + 1))") auto

declare outputCoordinates_loop.simps [simp del]

definition outputCoordinates :: "config \<Rightarrow> document \<Rightarrow> string" where
  "outputCoordinates cfg doc =
     (let format = toLowerCase (OUTPUT_FORMAT cfg) in
      (if format = ''json'' then console_writeln ''['' else [])
        @ outputCoordinates_loop format doc (int (length (layers doc)) - 1)
        @ (if format = ''json'' then console_writeln '']'' else []))"


section \<open>createSprite\<close>

text \<open>
  The local variables of \<open>createSprite\<close> that the loop changes, and the number of
  documents the script has added to the host.
\<close>

record sprite_state =
  new_canvas :: bool
  new_doc :: "document option"
  col_index :: int
  row_index :: int
  documents_added :: nat

definition initial_state :: sprite_state where
  "initial_state =
     \<lparr>new_canvas = False, new_doc = None, col_index = 0, row_index = 0, documents_added = 0\<rparr>"

text \<open>The update of the indices after an image has been added (lines 258 to 269).\<close>

definition update_indices :: "config \<Rightarrow> sprite_state \<Rightarrow> sprite_state" where
  "update_indices cfg st =
     (if LAYOUT cfg = ''rows'' then
        (let st = st\<lparr>row_index := row_index st + 1\<rparr> in
         if js_rem (row_index st) (LIMIT cfg) = Some 0
         then st\<lparr>row_index := 0, col_index := col_index st + 1\<rparr>
         else st)
      else
        (let st = st\<lparr>col_index := col_index st + 1\<rparr> in
         if js_rem (col_index st) (LIMIT cfg) = Some 0
         then st\<lparr>col_index := 0, row_index := row_index st + 1\<rparr>
         else st))"

text \<open>
  One round of the loop over the directory entries. A document that is missing although
  \<open>new_canvas\<close> is set would make \<open>addLayer\<close> fail with a type error.
\<close>

definition createSprite_body :: "config \<Rightarrow> entry \<Rightarrow> sprite_state \<Rightarrow> error + sprite_state" where
  "createSprite_body cfg image_file st =
     (if valid_image image_file then
        (let st = (if new_canvas st = False
                   then st\<lparr>new_doc := Some createCanvas, new_canvas := True,
                           documents_added := documents_added st + 1\<rparr>
                   else st)
         in case (image_file, new_doc st) of
              (File source_image, Some destination_doc) \<Rightarrow>
                (case addLayer source_image destination_doc
                        (COL_SPACING cfg * col_index st, ROW_SPACING cfg * row_index st) of
                   Inl e \<Rightarrow> Inl e
                 | Inr doc \<Rightarrow> Inr (update_indices cfg (st\<lparr>new_doc := Some doc\<rparr>)))
            | _ \<Rightarrow> Inl TypeError)
      else Inr st)"

fun createSprite_loop :: "config \<Rightarrow> entry list \<Rightarrow> sprite_state \<Rightarrow> error + sprite_state" where
  "createSprite_loop cfg [] st = Inr st"
| "createSprite_loop cfg (image_file # doc_list) st =
     (case createSprite_body cfg image_file st of
        Inl e \<Rightarrow> Inl e
      | Inr st' \<Rightarrow> createSprite_loop cfg doc_list st')"

text \<open>
  What a run leaves behind: how often the user was asked to try again, how many documents
  were added to the host, the sprite document, and the text on the console.
\<close>

record outcome =
  prompts :: nat
  canvases :: nat
  sprite :: "document option"
  console :: string

text \<open>The branch of \<open>createSprite\<close> for a folder that was selected.\<close>

definition createSprite_folder :: "config \<Rightarrow> nat \<Rightarrow> entry list \<Rightarrow> error + outcome" where
  "createSprite_folder cfg asked doc_list =
     (case createSprite_loop cfg doc_list initial_state of
        Inl e \<Rightarrow> Inl e
      | Inr st \<Rightarrow>
          (if new_canvas st then
             (case new_doc st of
                None \<Rightarrow> Inl TypeError
              | Some doc \<Rightarrow>
                  (let doc = cleanUp doc in
                   Inr \<lparr>prompts = asked, canvases = documents_added st, sprite = Some doc,
                        console = outputCoordinates cfg doc\<rparr>))
           else
             Inr \<lparr>prompts = asked, canvases = documents_added st, sprite = None, console = []\<rparr>))"

text \<open>
  The user: the answer to the \<open>n\<close>-th folder dialog (\<open>None\<close> when it is cancelled,
  otherwise the entries of the chosen folder) and to the \<open>n\<close>-th question whether to try
  again, both counted from 0.
\<close>

record user =
  getFolder :: "nat \<Rightarrow> entry list option"
  confirm :: "nat \<Rightarrow> bool"

text \<open>What a run depends on: the user variables and the user.\<close>

record environment =
  variables :: config
  operator :: user

text \<open>
  \<open>createSprite(folder)\<close>, after \<open>asked\<close> questions. It calls itself for as long as the
  user cancels the folder dialog and agrees to try again.
\<close>

partial_function (option) createSprite ::
  "environment \<Rightarrow> nat \<Rightarrow> entry list option \<Rightarrow> (error + outcome) option" where
  "createSprite env asked folder =
     (case folder of
        Some doc_list \<Rightarrow> Some (createSprite_folder (variables env) asked doc_list)
      | None \<Rightarrow>
          (if confirm (operator env) asked
           then createSprite env (asked + 1) (getFolder (operator env) (asked + 1))
           else Some (Inr \<lparr>prompts = asked + 1, canvases = 0, sprite = None, console = []\<rparr>)))"

declare createSprite.simps [code]

text \<open>The last line of the script: \<open>createSprite(getFolder())\<close>.\<close>

definition run :: "environment \<Rightarrow> (error + outcome) option" where
  "run env = createSprite env 0 (getFolder (operator env) 0)"


section \<open>Vocabulary of the properties\<close>

text \<open>
  The definitions of this section are not part of the script; the properties below are
  stated with them.
\<close>

text \<open>
  The files of a folder that pass the test of \<open>createSprite\<close>, in the order of the
  listing, and whether the host can open a file.
\<close>

fun accepted :: "entry list \<Rightarrow> image_file list" where
  "accepted [] = []"
| "accepted (File f # es) = (if valid_image (File f) then f # accepted es else accepted es)"
| "accepted (Folder n # es) = accepted es"

definition can_open :: "image_file \<Rightarrow> bool" where
  "can_open f = (art f \<noteq> None)"

text \<open>The name \<open>addLayer\<close> gives to the layer of a file, and the top left corner of a layer.\<close>

definition layer_name :: "image_file \<Rightarrow> string" where
  "layer_name f = substring (file_name f) 0 (lastIndexOf (file_name f) ''.'')"

definition top_left :: "layer \<Rightarrow> int \<times> int" where
  "top_left l = (fst (bounds l), fst (snd (bounds l)))"

text \<open>
  What \<open>update_indices\<close> does to the pair of the column index and the row index, the
  pair after \<open>k\<close> updates from \<open>(0, 0)\<close>, and the coordinates \<open>createSprite\<close> makes from
  a pair.
\<close>

definition next_indices :: "config \<Rightarrow> int \<times> int \<Rightarrow> int \<times> int" where
  "next_indices cfg cr =
     (let st = update_indices cfg (initial_state\<lparr>col_index := fst cr, row_index := snd cr\<rparr>)
      in (col_index st, row_index st))"

fun indices_after :: "config \<Rightarrow> nat \<Rightarrow> int \<times> int" where
  "indices_after cfg 0 = (0, 0)"
| "indices_after cfg (Suc k) = next_indices cfg (indices_after cfg k)"

definition coordinates_of :: "config \<Rightarrow> int \<times> int \<Rightarrow> int \<times> int" where
  "coordinates_of cfg cr = (COL_SPACING cfg * fst cr, ROW_SPACING cfg * snd cr)"

text \<open>
  The invariant of the loop of \<open>createSprite\<close>, for the files \<open>fs\<close> accepted so far:
  the indices are those after that many updates; there is a document exactly when a file
  has been accepted, and then it is the only one added, it has the size of the canvas, and
  its layers are those of the files, the latest first, above the empty layer of the canvas.
\<close>

definition sprite_invariant :: "config \<Rightarrow> image_file list \<Rightarrow> sprite_state \<Rightarrow> bool" where
  "sprite_invariant cfg fs st =
     ((col_index st, row_index st) = indices_after cfg (length fs) \<and>
      new_canvas st = (fs \<noteq> []) \<and>
      documents_added st = (if fs = [] then 0 else 1) \<and>
      (case new_doc st of
         None \<Rightarrow> fs = []
       | Some doc \<Rightarrow>
           fs \<noteq> [] \<and> width doc = 10000 \<and> height doc = 10000 \<and>
           map name (layers doc) = rev (map layer_name fs) @ [''Layer 1''] \<and>
           map top_left (layers doc) =
             rev (map (\<lambda>k. coordinates_of cfg (indices_after cfg k)) [0..<length fs]) @ [(0, 0)]))"

text \<open>
  The exported text as the specification describes it: the left and the top edge of a
  layer as the script prints them, the record of a layer in either format, a line, texts
  with a comma between them, and the whole text for a list of layers in the order given.
\<close>

definition x_text :: "layer \<Rightarrow> string" where
  "x_text l = split_join (toString (fst (bounds l)))"

definition y_text :: "layer \<Rightarrow> string" where
  "y_text l = split_join (toString (fst (snd (bounds l))))"

definition json_object :: "string \<Rightarrow> string \<Rightarrow> string \<Rightarrow> string" where
  \<open>json_object n x y = ''{"layer": "'' @ n @ ''", "x": "'' @ x @ ''", "y": "-'' @ y @ ''"}''\<close>

definition css_rule :: "string \<Rightarrow> string \<Rightarrow> string \<Rightarrow> string" where
  "css_rule n x y = ''.'' @ n @ '' {background-position: -'' @ x @ '' -'' @ y @ '';}''"

definition line :: "string \<Rightarrow> string" where
  "line s = s @ [CHR 0x0A]"

fun comma_separated :: "string list \<Rightarrow> string" where
  "comma_separated [] = []"
| "comma_separated [s] = s"
| "comma_separated (s # t # ts) = s @ '','' @ comma_separated (t # ts)"

definition json_text :: "layer list \<Rightarrow> string" where
  "json_text ls =
     line ''['' @ comma_separated (map (\<lambda>l. line (json_object (name l) (x_text l) (y_text l))) ls)
       @ line '']''"

definition css_text :: "layer list \<Rightarrow> string" where
  "css_text ls = concat (map (\<lambda>l. line (css_rule (name l) (x_text l) (y_text l))) ls)"

text \<open>
  Sample inputs: an image file of 16 by 16 pixels of artwork at the offset (3, 4), a
  folder with five supported images, a text file and a subfolder, and the sprites of the
  two images \<open>a.png\<close> and \<open>b.png\<close> laid out in a column and in a row.
\<close>

definition picture :: "string \<Rightarrow> entry" where
  "picture n = File \<lparr>file_name = n, art = Some (3, 4, 19, 20)\<rparr>"

definition sample_folder :: "entry list" where
  "sample_folder =
     [picture ''icon1.png'', Folder ''old.png'', picture ''icon2.PNG'', picture ''readme.txt'',
      picture ''icon3.gif'', picture ''icon4.jpeg'', picture ''icon5.tif'']"

definition sample_sprite :: document where
  "sample_sprite =
     \<lparr>doc_name = ''sprite'', width = 16, height = 66,
      layers = [\<lparr>name = ''b'', bounds = (0, 50, 16, 66)\<rparr>, \<lparr>name = ''a'', bounds = (0, 0, 16, 16)\<rparr>]\<rparr>"



section \<open>Properties of the string primitives\<close>

lemma indexOf_lower_bound: "- 1 \<le> indexOf s pat"
  by (induction s) (auto simp: Let_def)

lemma indexOf_found_iff: "indexOf s pat \<noteq> - 1 \<longleftrightarrow> sublist pat s"
proof (induction s)
  case Nil
  then show ?case by simp
next
  case (Cons c cs)
  have "- 1 \<le> indexOf cs pat" by (rule indexOf_lower_bound)
  then have "indexOf cs pat \<noteq> - 1 \<Longrightarrow> indexOf cs pat + 1 \<noteq> - 1" by arith
  with Cons show ?case
    by (auto simp: Let_def sublist_Cons_right)
qed

lemma isValidFile_loop_iff:
  "isValidFile_loop filename i \<longleftrightarrow>
     (\<exists>j. i \<le> j \<and> j < length supported_types \<and> sublist (supported_types ! j) filename)"
proof (induction filename i rule: isValidFile_loop.induct)
  case (1 filename i)
  show ?case
  proof (cases "i < length supported_types")
    case False
    then show ?thesis
      by (subst isValidFile_loop.simps) auto
  next
    case in_range: True
    show ?thesis
    proof (cases "sublist (supported_types ! i) filename")
      case True
      with in_range show ?thesis
        by (subst isValidFile_loop.simps) (auto simp: indexOf_found_iff)
    next
      case False
      then have ih: "isValidFile_loop filename (i + 1) \<longleftrightarrow>
          (\<exists>j. i + 1 \<le> j \<and> j < length supported_types \<and> sublist (supported_types ! j) filename)"
        using "1.IH" in_range by (simp add: indexOf_found_iff)
      have "(\<exists>j. i + 1 \<le> j \<and> j < length supported_types \<and> sublist (supported_types ! j) filename)
          \<longleftrightarrow> (\<exists>j. i \<le> j \<and> j < length supported_types \<and> sublist (supported_types ! j) filename)"
        using False by (metis Suc_eq_plus1 Suc_leI le_neq_implies_less nat_le_linear not_less_eq_eq)
      with ih False in_range show ?thesis
        by (subst isValidFile_loop.simps) (simp add: indexOf_found_iff)
    qed
  qed
qed

lemma isValidFile_iff:
  "isValidFile filename \<longleftrightarrow> (\<exists>ext \<in> set supported_types. sublist ext filename)"
  unfolding isValidFile_def isValidFile_loop_iff
  by (metis in_set_conv_nth le0)


section \<open>Properties of the grid indices and of the loop\<close>

lemma update_indices_next:
  "update_indices cfg st =
     st\<lparr>col_index := fst (next_indices cfg (col_index st, row_index st)),
        row_index := snd (next_indices cfg (col_index st, row_index st))\<rparr>"
  by (simp add: update_indices_def next_indices_def initial_state_def Let_def)

lemma next_indices_cols:
  "LAYOUT cfg \<noteq> ''rows'' \<Longrightarrow>
   next_indices cfg (c, r) = (if js_rem (c + 1) (LIMIT cfg) = Some 0 then (0, r + 1) else (c + 1, r))"
  by (simp add: update_indices_def next_indices_def initial_state_def Let_def)

lemma next_indices_rows:
  "LAYOUT cfg = ''rows'' \<Longrightarrow>
   next_indices cfg (c, r) = (if js_rem (r + 1) (LIMIT cfg) = Some 0 then (c + 1, 0) else (c, r + 1))"
  by (simp add: update_indices_def next_indices_def initial_state_def Let_def)

lemma js_rem_zero: "js_rem a 0 \<noteq> Some 0"
  by (simp add: js_rem_def)

lemma js_rem_nat:
  "0 < n \<Longrightarrow> js_rem (int a) (int n) = Some 0 \<longleftrightarrow> a mod n = 0"
proof -
  assume "0 < n"
  have "int a mod int n = int (a mod n)" by (simp add: zmod_int)
  then show ?thesis using \<open>0 < n\<close> by (simp add: js_rem_def sgn_if)
qed

lemma Suc_mod_wraps:
  "0 < n \<Longrightarrow> Suc (k mod n) mod n = 0 \<longleftrightarrow> Suc (k mod n) = n"
  by (metis mod_Suc mod_Suc_eq mod_self nat.distinct(1))

lemma indices_after_cols_nat:
  assumes "LAYOUT cfg \<noteq> ''rows''" and "LIMIT cfg = int n" and "0 < n"
  shows "indices_after cfg k = (int (k mod n), int (k div n))"
proof (induction k)
  case 0
  then show ?case by simp
next
  case (Suc k)
  have rem: "js_rem (int (k mod n) + 1) (LIMIT cfg) = Some 0 \<longleftrightarrow> Suc (k mod n) = n"
    using js_rem_nat [OF \<open>0 < n\<close>, of "Suc (k mod n)"] Suc_mod_wraps [OF \<open>0 < n\<close>, of k] assms(2)
    by (simp add: add.commute)
  show ?case
  proof (cases "Suc (k mod n) = n")
    case True
    then have "Suc k mod n = 0" "Suc k div n = Suc (k div n)"
      by (simp_all add: mod_Suc div_Suc)
    with True rem Suc show ?thesis
      by (simp add: next_indices_cols [OF assms(1)])
  next
    case False
    then have "Suc k mod n = Suc (k mod n)" "Suc k div n = k div n"
      by (simp_all add: mod_Suc div_Suc)
    with False rem Suc show ?thesis
      by (simp add: next_indices_cols [OF assms(1)])
  qed
qed

lemma indices_after_rows_nat:
  assumes "LAYOUT cfg = ''rows''" and "LIMIT cfg = int n" and "0 < n"
  shows "indices_after cfg k = (int (k div n), int (k mod n))"
proof (induction k)
  case 0
  then show ?case by simp
next
  case (Suc k)
  have rem: "js_rem (int (k mod n) + 1) (LIMIT cfg) = Some 0 \<longleftrightarrow> Suc (k mod n) = n"
    using js_rem_nat [OF \<open>0 < n\<close>, of "Suc (k mod n)"] Suc_mod_wraps [OF \<open>0 < n\<close>, of k] assms(2)
    by (simp add: add.commute)
  show ?case
  proof (cases "Suc (k mod n) = n")
    case True
    then have "Suc k mod n = 0" "Suc k div n = Suc (k div n)"
      by (simp_all add: mod_Suc div_Suc)
    with True rem Suc show ?thesis
      by (simp add: next_indices_rows [OF assms(1)])
  next
    case False
    then have "Suc k mod n = Suc (k mod n)" "Suc k div n = k div n"
      by (simp_all add: mod_Suc div_Suc)
    with False rem Suc show ?thesis
      by (simp add: next_indices_rows [OF assms(1)])
  qed
qed

lemma indices_after_cols:
  assumes "LAYOUT cfg \<noteq> ''rows''" and "0 < LIMIT cfg"
  shows "indices_after cfg k = (int k mod LIMIT cfg, int k div LIMIT cfg)"
proof -
  have "LIMIT cfg = int (nat (LIMIT cfg))" "0 < nat (LIMIT cfg)"
    using assms(2) by simp_all
  from indices_after_cols_nat [OF assms(1) this] show ?thesis
    using assms(2) by (simp add: zmod_int zdiv_int)
qed

lemma indices_after_rows:
  assumes "LAYOUT cfg = ''rows''" and "0 < LIMIT cfg"
  shows "indices_after cfg k = (int k div LIMIT cfg, int k mod LIMIT cfg)"
proof -
  have "LIMIT cfg = int (nat (LIMIT cfg))" "0 < nat (LIMIT cfg)"
    using assms(2) by simp_all
  from indices_after_rows_nat [OF assms(1) this] show ?thesis
    using assms(2) by (simp add: zmod_int zdiv_int)
qed

lemma indices_after_limit_zero:
  assumes "LIMIT cfg = 0"
  shows "indices_after cfg k = (if LAYOUT cfg = ''rows'' then (0, int k) else (int k, 0))"
proof (induction k)
  case 0
  then show ?case by simp
next
  case (Suc k)
  then show ?case
    using assms by (simp add: next_indices_rows next_indices_cols js_rem_zero)
qed

lemma next_indices_transpose:
  assumes "LAYOUT cfg = ''rows''" and "LAYOUT cfg' \<noteq> ''rows''" and "LIMIT cfg' = LIMIT cfg"
  shows "next_indices cfg (c, r) = prod.swap (next_indices cfg' (r, c))"
  using assms by (simp add: next_indices_rows next_indices_cols)

lemma indices_after_transpose:
  assumes "LAYOUT cfg = ''rows''" and "LAYOUT cfg' \<noteq> ''rows''" and "LIMIT cfg' = LIMIT cfg"
  shows "indices_after cfg k = prod.swap (indices_after cfg' k)"
proof (induction k)
  case 0
  then show ?case by simp
next
  case (Suc k)
  obtain c r where cr: "indices_after cfg' k = (c, r)" by (cases "indices_after cfg' k")
  with Suc show ?case
    using next_indices_transpose [OF assms, of r c] by simp
qed

lemma indices_after_default_layout:
  assumes "LAYOUT cfg \<noteq> ''rows''" and "LAYOUT cfg' \<noteq> ''rows''" and "LIMIT cfg' = LIMIT cfg"
  shows "indices_after cfg k = indices_after cfg' k"
proof (induction k)
  case 0
  then show ?case by simp
next
  case (Suc k)
  obtain c r where cr: "indices_after cfg' k = (c, r)" by (cases "indices_after cfg' k")
  with Suc show ?case
    using assms by (simp add: next_indices_cols)
qed


lemma createSprite_loop_append:
  "createSprite_loop cfg (es @ es') st =
     (case createSprite_loop cfg es st of
        Inl e \<Rightarrow> Inl e
      | Inr st' \<Rightarrow> createSprite_loop cfg es' st')"
  by (induction es arbitrary: st) (auto split: sum.splits)

lemma accepted_append: "accepted (es @ es') = accepted es @ accepted es'"
  by (induction es rule: accepted.induct) auto

lemma body_rejected: "\<not> valid_image e \<Longrightarrow> createSprite_body cfg e st = Inr st"
  by (simp add: createSprite_body_def)

lemma addLayer_opened:
  assumes "art f = Some b"
  shows "\<exists>l. addLayer f doc xy = Inr (doc\<lparr>layers := l # layers doc\<rparr>)
           \<and> name l = layer_name f \<and> top_left l = xy"
  using assms
  by (cases b; cases xy) (force simp: addLayer_def Let_def translate_def layer_name_def top_left_def)

lemma sprite_invariant_initial: "sprite_invariant cfg [] initial_state"
  by (simp add: sprite_invariant_def initial_state_def)

lemma body_accepted:
  assumes inv: "sprite_invariant cfg fs st" and valid: "valid_image (File f)"
    and opened: "art f = Some b"
  shows "\<exists>st'. createSprite_body cfg (File f) st = Inr st' \<and> sprite_invariant cfg (fs @ [f]) st'"
proof -
  define st1 where "st1 = (if new_canvas st = False
       then st\<lparr>new_doc := Some createCanvas, new_canvas := True,
               documents_added := documents_added st + 1\<rparr>
       else st)"
  obtain doc1 where doc1: "new_doc st1 = Some doc1"
    and dims: "width doc1 = 10000" "height doc1 = 10000"
    and names: "map name (layers doc1) = rev (map layer_name fs) @ [''Layer 1'']"
    and places: "map top_left (layers doc1) =
        rev (map (\<lambda>k. coordinates_of cfg (indices_after cfg k)) [0..<length fs]) @ [(0, 0)]"
    using inv unfolding st1_def sprite_invariant_def
    by (cases "new_doc st") (auto simp: createCanvas_def top_left_def)
  have idx: "(col_index st1, row_index st1) = indices_after cfg (length fs)"
    and added: "documents_added st1 = 1" and flag: "new_canvas st1"
    using inv unfolding st1_def sprite_invariant_def by (auto split: if_splits)
  obtain l where l: "addLayer f doc1 (COL_SPACING cfg * col_index st1, ROW_SPACING cfg * row_index st1)
        = Inr (doc1\<lparr>layers := l # layers doc1\<rparr>)"
    and lname: "name l = layer_name f"
    and lpos: "top_left l = (COL_SPACING cfg * col_index st1, ROW_SPACING cfg * row_index st1)"
    using addLayer_opened [OF opened] by blast
  define st' where "st' = update_indices cfg (st1\<lparr>new_doc := Some (doc1\<lparr>layers := l # layers doc1\<rparr>)\<rparr>)"
  have body: "createSprite_body cfg (File f) st = Inr st'"
    using valid doc1 l unfolding createSprite_body_def st'_def st1_def [symmetric]
    by (simp add: Let_def)
  have pos: "top_left l = coordinates_of cfg (indices_after cfg (length fs))"
    using lpos idx by (simp add: coordinates_of_def flip: idx)
  have "sprite_invariant cfg (fs @ [f]) st'"
    unfolding sprite_invariant_def st'_def update_indices_next
    using idx [symmetric] added flag dims names places lname pos
    by simp
  with body show ?thesis by blast
qed

lemma createSprite_loop_accepted:
  assumes "list_all can_open (accepted es)"
  shows "\<exists>st. createSprite_loop cfg es initial_state = Inr st \<and> sprite_invariant cfg (accepted es) st"
  using assms
proof (induction es rule: rev_induct)
  case Nil
  then show ?case by (simp add: sprite_invariant_initial)
next
  case (snoc e es)
  then obtain st where st: "createSprite_loop cfg es initial_state = Inr st"
    and inv: "sprite_invariant cfg (accepted es) st"
    by (auto simp: accepted_append)
  show ?case
  proof (cases "valid_image e")
    case False
    then have "accepted [e] = []" by (cases e) auto
    with False st inv show ?thesis
      by (simp add: createSprite_loop_append accepted_append body_rejected)
  next
    case True
    then obtain f where e: "e = File f" by (cases e) auto
    with True have acc: "accepted [e] = [f]" by simp
    with snoc.prems obtain b where "art f = Some b"
      by (auto simp: accepted_append can_open_def)
    from body_accepted [OF inv True [unfolded e] this] obtain st'
      where "createSprite_body cfg (File f) st = Inr st'"
        and "sprite_invariant cfg (accepted es @ [f]) st'" by blast
    with st e acc show ?thesis
      by (simp add: createSprite_loop_append accepted_append)
  qed
qed


lemma json_line_object: "json_line l = json_object (name l) (x_text l) (y_text l)"
  by (simp add: json_line_def json_object_def x_text_def y_text_def)

lemma css_line_rule: "css_line l = css_rule (name l) (x_text l) (y_text l)"
  by (simp add: css_line_def css_rule_def x_text_def y_text_def)

lemma comma_separated_Cons:
  "comma_separated (s # ts) = s @ (if ts = [] then [] else '','' @ comma_separated ts)"
  by (cases ts) simp_all

lemma outputCoordinates_loop_json:
  "n \<le> length (layers doc) \<Longrightarrow>
   outputCoordinates_loop ''json'' doc (int n - 1) =
     comma_separated (map (\<lambda>l. line (json_line l)) (rev (take n (layers doc))))"
proof (induction n)
  case 0
  then show ?case by (subst outputCoordinates_loop.simps) simp
next
  case (Suc n)
  then have n: "n < length (layers doc)" by simp
  have "outputCoordinates_loop ''json'' doc (int (Suc n) - 1) =
      line (json_line (layers doc ! n)) @ (if n > 0 then '','' else [])
        @ outputCoordinates_loop ''json'' doc (int n - 1)"
    by (subst outputCoordinates_loop.simps) (simp add: console_writeln_def console_write_def line_def)
  also have "\<dots> = comma_separated (map (\<lambda>l. line (json_line l)) (rev (take (Suc n) (layers doc))))"
    using Suc n by (auto simp: take_Suc_conv_app_nth comma_separated_Cons)
  finally show ?case .
qed

lemma outputCoordinates_loop_css:
  "format \<noteq> ''json'' \<Longrightarrow> n \<le> length (layers doc) \<Longrightarrow>
   outputCoordinates_loop format doc (int n - 1) =
     concat (map (\<lambda>l. line (css_line l)) (rev (take n (layers doc))))"
proof (induction n)
  case 0
  then show ?case by (subst outputCoordinates_loop.simps) simp
next
  case (Suc n)
  then have n: "n < length (layers doc)" by simp
  have "outputCoordinates_loop format doc (int (Suc n) - 1) =
      line (css_line (layers doc ! n)) @ outputCoordinates_loop format doc (int n - 1)"
    using Suc.prems(1)
    by (subst outputCoordinates_loop.simps) (simp add: console_writeln_def line_def)
  also have "\<dots> = concat (map (\<lambda>l. line (css_line l)) (rev (take (Suc n) (layers doc))))"
    using Suc n by (simp add: take_Suc_conv_app_nth)
  finally show ?case .
qed

lemma outputCoordinates_json_text:
  "toLowerCase (OUTPUT_FORMAT cfg) = ''json'' \<Longrightarrow>
   outputCoordinates cfg doc = json_text (rev (layers doc))"
  using outputCoordinates_loop_json [of "length (layers doc)" doc]
  by (simp add: outputCoordinates_def json_text_def console_writeln_def line_def json_line_object)

lemma outputCoordinates_css_text:
  "toLowerCase (OUTPUT_FORMAT cfg) \<noteq> ''json'' \<Longrightarrow>
   outputCoordinates cfg doc = css_text (rev (layers doc))"
  using outputCoordinates_loop_css [of "toLowerCase (OUTPUT_FORMAT cfg)" "length (layers doc)" doc]
  by (simp add: outputCoordinates_def css_text_def css_line_rule)

lemma name_translate: "name (translate l dx dy) = name l"
  by (cases "bounds l") (simp add: translate_def)

lemma names_revealAll: "map name (layers (revealAll doc)) = map name (layers doc)"
  by (simp add: revealAll_def Let_def name_translate comp_def)

lemma names_trim: "map name (layers (trim doc)) = map name (layers doc)"
  by (cases "layers doc") (simp_all add: trim_def Let_def name_translate comp_def)

lemma names_cleanUp: "map name (layers (cleanUp doc)) = butlast (map name (layers doc))"
  by (simp add: cleanUp_def names_trim names_revealAll map_butlast)


section \<open>The file filter\<close>

lemma lower_char_dot: "lower_char c = CHR ''.'' \<Longrightarrow> c = CHR ''.''"
  by (auto simp: lower_char_def split: option.splits if_splits)

lemma dot_in_toLowerCase: "CHR ''.'' \<in> set (toLowerCase s) \<Longrightarrow> CHR ''.'' \<in> set s"
  by (auto simp: toLowerCase_def) (metis lower_char_dot)

lemma supported_types_dot: "ext \<in> set supported_types \<Longrightarrow> CHR ''.'' \<in> set ext"
  by (auto simp: supported_types_def)

lemma isValidFile_examples:
  "isValidFile (toLowerCase ''photo.PNG'')"
  "isValidFile (toLowerCase ''a.b.jpeg'')"
  "isValidFile (toLowerCase ''notes.jpgx'')"
  "\<not> isValidFile (toLowerCase ''readme.txt'')"
  "\<not> isValidFile (toLowerCase ''images'')"
  "\<not> suffix ''.jpg'' (toLowerCase ''notes.jpgx'')"
  by code_simp+

text \<open>
  C6. The test on a file accepts it exactly when the lower-case form of its name contains
  one of the texts \<open>.jpg\<close>, \<open>.jpeg\<close>, \<open>.gif\<close>, \<open>.png\<close>, \<open>.tif\<close> anywhere, not only at
  the end: \<open>photo.PNG\<close>, \<open>a.b.jpeg\<close> and \<open>notes.jpgx\<close> are accepted, \<open>readme.txt\<close> and
  any name without a dot are rejected, and so is every subfolder.
\<close>

theorem file_filter_substring_match:
  "(valid_image (File f) \<longleftrightarrow>
      (\<exists>ext \<in> set [''.jpg'', ''.jpeg'', ''.gif'', ''.png'', ''.tif''].
         sublist ext (toLowerCase (file_name f))))
   \<and> valid_image (File \<lparr>file_name = ''photo.PNG'', art = a\<rparr>)
   \<and> valid_image (File \<lparr>file_name = ''a.b.jpeg'', art = a\<rparr>)
   \<and> valid_image (File \<lparr>file_name = ''notes.jpgx'', art = a\<rparr>)
   \<and> \<not> suffix ''.jpg'' (toLowerCase ''notes.jpgx'')
   \<and> \<not> valid_image (File \<lparr>file_name = ''readme.txt'', art = a\<rparr>)
   \<and> (CHR ''.'' \<notin> set (file_name f) \<longrightarrow> \<not> valid_image (File f))
   \<and> \<not> valid_image (Folder n)"
proof -
  have general: "valid_image (File f) \<longleftrightarrow>
      (\<exists>ext \<in> set [''.jpg'', ''.jpeg'', ''.gif'', ''.png'', ''.tif''].
         sublist ext (toLowerCase (file_name f)))"
    using isValidFile_iff [of "toLowerCase (file_name f)"] by (simp add: supported_types_def)
  have bare: "\<not> valid_image (File f)" if "CHR ''.'' \<notin> set (file_name f)"
  proof
    assume "valid_image (File f)"
    then obtain ext where "ext \<in> set supported_types" "sublist ext (toLowerCase (file_name f))"
      by (auto simp: isValidFile_iff)
    then have "CHR ''.'' \<in> set (toLowerCase (file_name f))"
      using supported_types_dot set_mono_sublist by blast
    with that show False by (blast dest: dot_in_toLowerCase)
  qed
  from general bare show ?thesis
    by (simp add: isValidFile_examples)
qed

theorem file_filter_substring_match_witness:
  "valid_image (File \<lparr>file_name = ''Logo.final.TIF'', art = None\<rparr>)
   \<and> sublist ''.tif'' (toLowerCase ''Logo.final.TIF'')
   \<and> CHR ''.'' \<notin> set ''images''
   \<and> \<not> valid_image (File \<lparr>file_name = ''images'', art = None\<rparr>)"
proof -
  have dotless: "CHR ''.'' \<notin> set ''images''" by simp
  have contained: "sublist ''.tif'' (toLowerCase ''Logo.final.TIF'')" by code_simp
  from file_filter_substring_match
         [of "\<lparr>file_name = ''Logo.final.TIF'', art = None\<rparr>" None "''x''"]
       file_filter_substring_match
         [of "\<lparr>file_name = ''images'', art = None\<rparr>" None "''x''"]
       dotless contained
  show ?thesis by auto
qed


section \<open>The grid\<close>

lemma sprite_invariant_indices:
  "sprite_invariant cfg fs st \<Longrightarrow> (col_index st, row_index st) = indices_after cfg (length fs)"
  by (simp add: sprite_invariant_def)

lemma sprite_invariant_top:
  assumes "sprite_invariant cfg (fs @ [f]) st"
  shows "\<exists>doc l ls. new_doc st = Some doc \<and> layers doc = l # ls \<and> name l = layer_name f
           \<and> top_left l = coordinates_of cfg (indices_after cfg (length fs))"
proof -
  from assms obtain doc where doc: "new_doc st = Some doc"
    and names: "map name (layers doc) = layer_name f # rev (map layer_name fs) @ [''Layer 1'']"
    and places: "map top_left (layers doc) =
        coordinates_of cfg (indices_after cfg (length fs))
          # rev (map (\<lambda>k. coordinates_of cfg (indices_after cfg k)) [0..<length fs]) @ [(0, 0)]"
    by (cases "new_doc st") (auto simp: sprite_invariant_def)
  from names obtain l ls where "layers doc = l # ls" by (cases "layers doc") auto
  with doc names places show ?thesis by auto
qed

lemma createSprite_loop_next:
  assumes "list_all can_open (accepted pre)" and "valid_image (File f)" and "can_open f"
  shows "\<exists>st st' doc l ls.
           createSprite_loop cfg pre initial_state = Inr st
         \<and> (col_index st, row_index st) = indices_after cfg (length (accepted pre))
         \<and> createSprite_body cfg (File f) st = Inr st'
         \<and> new_doc st' = Some doc \<and> layers doc = l # ls \<and> name l = layer_name f
         \<and> top_left l = coordinates_of cfg (col_index st, row_index st)
         \<and> (\<forall>post. createSprite_loop cfg (pre @ File f # post) initial_state
                     = createSprite_loop cfg post st')"
proof -
  from createSprite_loop_accepted [OF assms(1)] obtain st
    where st: "createSprite_loop cfg pre initial_state = Inr st"
      and inv: "sprite_invariant cfg (accepted pre) st" by blast
  from assms(3) obtain b where "art f = Some b" by (auto simp: can_open_def)
  from body_accepted [OF inv assms(2) this] obtain st'
    where body: "createSprite_body cfg (File f) st = Inr st'"
      and inv': "sprite_invariant cfg (accepted pre @ [f]) st'" by blast
  from sprite_invariant_top [OF inv'] obtain doc l ls
    where top: "new_doc st' = Some doc" "layers doc = l # ls" "name l = layer_name f"
      "top_left l = coordinates_of cfg (indices_after cfg (length (accepted pre)))" by blast
  have "createSprite_loop cfg (pre @ File f # post) initial_state = createSprite_loop cfg post st'"
    for post using st body by (simp add: createSprite_loop_append)
  with st body top sprite_invariant_indices [OF inv] show ?thesis by auto
qed

text \<open>
  C1. With layout \<open>cols\<close> and a positive limit \<open>L\<close>, the image accepted after \<open>k\<close>
  earlier accepted ones is handled with column index \<open>k mod L\<close> and row index
  \<open>k div L\<close>: these are the indices when its turn comes, and its layer is put at the
  coordinates made from them. Entries that are not accepted leave the state, and so the
  indices, alone, whatever lies between the accepted images.
\<close>

theorem cols_indices_cycle:
  assumes "LAYOUT cfg = ''cols''" and "0 < LIMIT cfg"
    and "list_all can_open (accepted pre)" and "valid_image (File f)" and "can_open f"
    and "k = length (accepted pre)"
  shows "\<exists>st st' doc l ls.
           createSprite_loop cfg pre initial_state = Inr st
         \<and> col_index st = int k mod LIMIT cfg \<and> row_index st = int k div LIMIT cfg
         \<and> createSprite_body cfg (File f) st = Inr st'
         \<and> new_doc st' = Some doc \<and> layers doc = l # ls \<and> name l = layer_name f
         \<and> top_left l = (COL_SPACING cfg * (int k mod LIMIT cfg),
                          ROW_SPACING cfg * (int k div LIMIT cfg))
         \<and> (\<forall>post. createSprite_loop cfg (pre @ File f # post) initial_state
                     = createSprite_loop cfg post st')
         \<and> (\<forall>e s. \<not> valid_image e \<longrightarrow> createSprite_body cfg e s = Inr s)"
proof -
  have closed_form: "indices_after cfg k = (int k mod LIMIT cfg, int k div LIMIT cfg)"
    using assms(1,2) by (simp add: indices_after_cols)
  from createSprite_loop_next [OF assms(3-5), of cfg] obtain st st' doc l ls
    where run: "createSprite_loop cfg pre initial_state = Inr st"
      and idx: "(col_index st, row_index st) = indices_after cfg (length (accepted pre))"
      and rest: "createSprite_body cfg (File f) st = Inr st'" "new_doc st' = Some doc"
        "layers doc = l # ls" "name l = layer_name f"
        "top_left l = coordinates_of cfg (col_index st, row_index st)"
        "\<forall>post. createSprite_loop cfg (pre @ File f # post) initial_state
                = createSprite_loop cfg post st'"
    by blast
  from idx closed_form assms(6)
  have "col_index st = int k mod LIMIT cfg" "row_index st = int k div LIMIT cfg" by simp_all
  with run rest show ?thesis
    by (auto simp: coordinates_of_def body_rejected)
qed

theorem cols_indices_cycle_witness:
  "LAYOUT (default_config\<lparr>LIMIT := 2\<rparr>) = ''cols'' \<and> 0 < LIMIT (default_config\<lparr>LIMIT := 2\<rparr>)
   \<and> list_all can_open (accepted (take 5 sample_folder))
   \<and> valid_image (picture ''icon4.jpeg'')
   \<and> length (accepted (take 5 sample_folder)) = 3
   \<and> (\<exists>st st' doc l ls.
         createSprite_loop (default_config\<lparr>LIMIT := 2\<rparr>) (take 5 sample_folder) initial_state = Inr st
       \<and> col_index st = 1 \<and> row_index st = 1
       \<and> createSprite_body (default_config\<lparr>LIMIT := 2\<rparr>) (picture ''icon4.jpeg'') st = Inr st'
       \<and> new_doc st' = Some doc \<and> layers doc = l # ls \<and> name l = ''icon4''
       \<and> top_left l = (100, 50))"
proof -
  let ?cfg = "default_config\<lparr>LIMIT := 2\<rparr>"
  let ?f = "\<lparr>file_name = ''icon4.jpeg'', art = Some (3, 4, 19, 20)\<rparr>"
  have layout: "LAYOUT ?cfg = ''cols''" and limit: "0 < LIMIT ?cfg"
    and spacing: "COL_SPACING ?cfg = 100" "ROW_SPACING ?cfg = 50" "LIMIT ?cfg = 2"
    by (simp_all add: default_config_def)
  have opened: "list_all can_open (accepted (take 5 sample_folder))" by code_simp
  have valid: "valid_image (File ?f)" by code_simp
  have can: "can_open ?f" by (simp add: can_open_def)
  have count: "3 = length (accepted (take 5 sample_folder))" by code_simp
  have named: "layer_name ?f = ''icon4''" by code_simp
  from cols_indices_cycle [OF layout limit opened valid can count]
  obtain st st' doc l ls
    where "createSprite_loop ?cfg (take 5 sample_folder) initial_state = Inr st"
      "col_index st = int 3 mod LIMIT ?cfg" "row_index st = int 3 div LIMIT ?cfg"
      "createSprite_body ?cfg (File ?f) st = Inr st'"
      "new_doc st' = Some doc" "layers doc = l # ls" "name l = layer_name ?f"
      "top_left l = (COL_SPACING ?cfg * (int 3 mod LIMIT ?cfg),
                     ROW_SPACING ?cfg * (int 3 div LIMIT ?cfg))"
    by blast
  then have "\<exists>st st' doc l ls.
         createSprite_loop ?cfg (take 5 sample_folder) initial_state = Inr st
       \<and> col_index st = 1 \<and> row_index st = 1
       \<and> createSprite_body ?cfg (picture ''icon4.jpeg'') st = Inr st'
       \<and> new_doc st' = Some doc \<and> layers doc = l # ls \<and> name l = ''icon4''
       \<and> top_left l = (100, 50)"
    unfolding named spacing picture_def by simp
  with layout limit opened valid count show ?thesis
    by (simp add: picture_def)
qed

lemma sprite_invariant_layer:
  assumes inv: "sprite_invariant cfg fs st" and k: "k < length fs"
  shows "\<exists>doc. new_doc st = Some doc \<and> length (layers doc) = Suc (length fs)
           \<and> name (layers doc ! (length fs - 1 - k)) = layer_name (fs ! k)
           \<and> top_left (layers doc ! (length fs - 1 - k)) = coordinates_of cfg (indices_after cfg k)"
proof -
  let ?i = "length fs - 1 - k"
  from k have i: "?i < length fs" and mirror: "length fs - Suc ?i = k" by simp_all
  from inv k obtain doc where doc: "new_doc st = Some doc"
    and names: "map name (layers doc) = rev (map layer_name fs) @ [''Layer 1'']"
    and places: "map top_left (layers doc) =
        rev (map (\<lambda>k. coordinates_of cfg (indices_after cfg k)) [0..<length fs]) @ [(0, 0)]"
    by (cases "new_doc st") (auto simp: sprite_invariant_def)
  from names have len: "length (layers doc) = Suc (length fs)"
    by (metis length_append_singleton length_map length_rev)
  have "name (layers doc ! ?i) = map name (layers doc) ! ?i"
    using i len by simp
  also have "\<dots> = rev (map layer_name fs) ! ?i"
    using i by (simp add: names nth_append)
  also have "\<dots> = layer_name (fs ! k)"
    using i k mirror by (simp add: rev_nth)
  finally have nm: "name (layers doc ! ?i) = layer_name (fs ! k)" .
  have "top_left (layers doc ! ?i) = map top_left (layers doc) ! ?i"
    using i len by simp
  also have "\<dots> = rev (map (\<lambda>k. coordinates_of cfg (indices_after cfg k)) [0..<length fs]) ! ?i"
    using i by (simp add: places nth_append)
  also have "\<dots> = coordinates_of cfg (indices_after cfg k)"
    using i k mirror by (simp add: rev_nth)
  finally have "top_left (layers doc ! ?i) = coordinates_of cfg (indices_after cfg k)" .
  with doc len nm show ?thesis by blast
qed

text \<open>
  C2. Every accepted image is placed at \<open>x = COL_SPACING * col_index\<close>,
  \<open>y = ROW_SPACING * row_index\<close>. For a positive limit \<open>L\<close> the image accepted after
  \<open>k\<close> earlier ones has, under layout \<open>rows\<close>, the row index \<open>k mod L\<close> (the counter
  that wraps) and the column index \<open>k div L\<close>; under any other layout the column index
  is \<open>k mod L\<close> and the row index \<open>k div L\<close>. The indices under \<open>rows\<close> are those under
  \<open>cols\<close> with the two roles exchanged.
\<close>

theorem placement_coordinates:
  assumes "0 < LIMIT cfg" and "list_all can_open (accepted doc_list)"
    and "k < length (accepted doc_list)" and "n = length (accepted doc_list)"
  shows "\<exists>st doc.
           createSprite_loop cfg doc_list initial_state = Inr st \<and> new_doc st = Some doc
         \<and> name (layers doc ! (n - 1 - k)) = layer_name (accepted doc_list ! k)
         \<and> top_left (layers doc ! (n - 1 - k)) =
             (if LAYOUT cfg = ''rows''
              then (COL_SPACING cfg * (int k div LIMIT cfg), ROW_SPACING cfg * (int k mod LIMIT cfg))
              else (COL_SPACING cfg * (int k mod LIMIT cfg), ROW_SPACING cfg * (int k div LIMIT cfg)))
         \<and> (col_index st, row_index st) =
             (if LAYOUT cfg = ''rows'' then (int n div LIMIT cfg, int n mod LIMIT cfg)
              else (int n mod LIMIT cfg, int n div LIMIT cfg))
         \<and> (\<exists>sr sc.
               createSprite_loop (cfg\<lparr>LAYOUT := ''rows''\<rparr>) doc_list initial_state = Inr sr
             \<and> createSprite_loop (cfg\<lparr>LAYOUT := ''cols''\<rparr>) doc_list initial_state = Inr sc
             \<and> col_index sr = row_index sc \<and> row_index sr = col_index sc)"
proof -
  from createSprite_loop_accepted [OF assms(2)] obtain st
    where st: "createSprite_loop cfg doc_list initial_state = Inr st"
      and inv: "sprite_invariant cfg (accepted doc_list) st" by blast
  from sprite_invariant_layer [OF inv assms(3)] obtain doc
    where doc: "new_doc st = Some doc"
      and nm: "name (layers doc ! (n - 1 - k)) = layer_name (accepted doc_list ! k)"
      and pos: "top_left (layers doc ! (n - 1 - k)) = coordinates_of cfg (indices_after cfg k)"
    using assms(4) by blast
  have closed_form: "indices_after cfg j =
      (if LAYOUT cfg = ''rows'' then (int j div LIMIT cfg, int j mod LIMIT cfg)
       else (int j mod LIMIT cfg, int j div LIMIT cfg))" for j
    using assms(1) by (simp add: indices_after_rows indices_after_cols)
  have final: "(col_index st, row_index st) =
      (if LAYOUT cfg = ''rows'' then (int n div LIMIT cfg, int n mod LIMIT cfg)
       else (int n mod LIMIT cfg, int n div LIMIT cfg))"
    using sprite_invariant_indices [OF inv] assms(4) closed_form [of n] by simp
  from createSprite_loop_accepted [OF assms(2)] obtain sr
    where sr: "createSprite_loop (cfg\<lparr>LAYOUT := ''rows''\<rparr>) doc_list initial_state = Inr sr"
      and invr: "sprite_invariant (cfg\<lparr>LAYOUT := ''rows''\<rparr>) (accepted doc_list) sr" by blast
  from createSprite_loop_accepted [OF assms(2)] obtain sc
    where sc: "createSprite_loop (cfg\<lparr>LAYOUT := ''cols''\<rparr>) doc_list initial_state = Inr sc"
      and invc: "sprite_invariant (cfg\<lparr>LAYOUT := ''cols''\<rparr>) (accepted doc_list) sc" by blast
  have "indices_after (cfg\<lparr>LAYOUT := ''rows''\<rparr>) n
      = prod.swap (indices_after (cfg\<lparr>LAYOUT := ''cols''\<rparr>) n)"
    by (rule indices_after_transpose) simp_all
  with sprite_invariant_indices [OF invr] sprite_invariant_indices [OF invc] assms(4)
  have swap: "col_index sr = row_index sc \<and> row_index sr = col_index sc"
    by (metis fst_conv snd_conv swap_simp)
  from st doc nm pos final sr sc swap show ?thesis
    unfolding closed_form [of k] coordinates_of_def
    by (intro exI conjI) (simp_all split: if_splits)
qed

theorem placement_coordinates_witness:
  "0 < LIMIT default_config \<and> list_all can_open (accepted sample_folder)
   \<and> length (accepted sample_folder) = 5
   \<and> (\<exists>st doc.
         createSprite_loop default_config sample_folder initial_state = Inr st
       \<and> new_doc st = Some doc
       \<and> name (layers doc ! 2) = ''icon3''
       \<and> top_left (layers doc ! 2) = (0, 100))"
proof -
  have limit: "0 < LIMIT default_config" and layout: "LAYOUT default_config \<noteq> ''rows''"
    and settings: "COL_SPACING default_config = 100" "ROW_SPACING default_config = 50"
      "LIMIT default_config = 1"
    by (simp_all add: default_config_def)
  have opened: "list_all can_open (accepted sample_folder)" by code_simp
  have count: "5 = length (accepted sample_folder)" by code_simp
  have third: "layer_name (accepted sample_folder ! 2) = ''icon3''" by code_simp
  from placement_coordinates [OF limit opened _ count, of 2]
  obtain st doc
    where "createSprite_loop default_config sample_folder initial_state = Inr st"
      "new_doc st = Some doc"
      "name (layers doc ! (5 - 1 - 2)) = layer_name (accepted sample_folder ! 2)"
      "top_left (layers doc ! (5 - 1 - 2)) =
         (if LAYOUT default_config = ''rows''
          then (COL_SPACING default_config * (int 2 div LIMIT default_config),
                ROW_SPACING default_config * (int 2 mod LIMIT default_config))
          else (COL_SPACING default_config * (int 2 mod LIMIT default_config),
                ROW_SPACING default_config * (int 2 div LIMIT default_config)))"
    unfolding count [symmetric] by auto
  then have "\<exists>st doc.
         createSprite_loop default_config sample_folder initial_state = Inr st
       \<and> new_doc st = Some doc
       \<and> name (layers doc ! 2) = ''icon3''
       \<and> top_left (layers doc ! 2) = (0, 100)"
    unfolding third settings using layout by auto
  with limit opened count show ?thesis by simp
qed

lemma createSprite_folder_empty:
  assumes "accepted es = []"
  shows "createSprite_folder cfg asked es =
           Inr \<lparr>prompts = asked, canvases = 0, sprite = None, console = []\<rparr>"
proof -
  from assms have "list_all can_open (accepted es)" by simp
  from createSprite_loop_accepted [OF this] obtain st
    where "createSprite_loop cfg es initial_state = Inr st"
      and "sprite_invariant cfg (accepted es) st" by blast
  with assms show ?thesis
    by (simp add: createSprite_folder_def sprite_invariant_def)
qed

lemma createSprite_folder_sprite:
  assumes "list_all can_open (accepted es)" and "accepted es \<noteq> []"
  shows "\<exists>doc. createSprite_folder cfg asked es =
             Inr \<lparr>prompts = asked, canvases = 1, sprite = Some doc,
                  console = outputCoordinates cfg doc\<rparr>
           \<and> map name (layers doc) = rev (map layer_name (accepted es))"
proof -
  from createSprite_loop_accepted [OF assms(1)] obtain st
    where st: "createSprite_loop cfg es initial_state = Inr st"
      and inv: "sprite_invariant cfg (accepted es) st" by blast
  from inv assms(2) obtain doc where doc: "new_doc st = Some doc"
    and names: "map name (layers doc) = rev (map layer_name (accepted es)) @ [''Layer 1'']"
    and flags: "new_canvas st" "documents_added st = 1"
    by (cases "new_doc st") (auto simp: sprite_invariant_def)
  have "map name (layers (cleanUp doc)) = rev (map layer_name (accepted es))"
    by (simp add: names_cleanUp names)
  with st doc flags show ?thesis
    by (simp add: createSprite_folder_def Let_def)
qed

text \<open>
  C10. With \<open>LIMIT = 0\<close> the remainder is not a number, the test \<open>% LIMIT === 0\<close> is
  never true, and nothing fails: when an image is accepted after \<open>k\<close> earlier ones the
  counter of the layout's axis is \<open>k\<close> and the other counter is 0, and the run on the
  folder ends without an error.
\<close>

theorem limit_zero_never_wraps:
  assumes "LIMIT cfg = 0"
    and "list_all can_open (accepted pre)" and "valid_image (File f)" and "can_open f"
    and "list_all can_open (accepted post)"
    and "k = length (accepted pre)"
  shows "(\<forall>counter. js_rem counter (LIMIT cfg) = None)
       \<and> (\<exists>st st' doc l ls.
             createSprite_loop cfg pre initial_state = Inr st
           \<and> (col_index st, row_index st) = (if LAYOUT cfg = ''rows'' then (0, int k) else (int k, 0))
           \<and> createSprite_body cfg (File f) st = Inr st'
           \<and> new_doc st' = Some doc \<and> layers doc = l # ls \<and> name l = layer_name f
           \<and> top_left l = (if LAYOUT cfg = ''rows'' then (0, ROW_SPACING cfg * int k)
                            else (COL_SPACING cfg * int k, 0)))
       \<and> (\<exists>out. createSprite_folder cfg asked (pre @ File f # post) = Inr out)"
proof -
  have nan: "\<forall>counter. js_rem counter (LIMIT cfg) = None"
    using assms(1) by (simp add: js_rem_def)
  from createSprite_loop_next [OF assms(2-4), of cfg] obtain st st' doc l ls
    where run: "createSprite_loop cfg pre initial_state = Inr st"
      and idx: "(col_index st, row_index st) = indices_after cfg (length (accepted pre))"
      and rest: "createSprite_body cfg (File f) st = Inr st'" "new_doc st' = Some doc"
        "layers doc = l # ls" "name l = layer_name f"
      and pos: "top_left l = coordinates_of cfg (col_index st, row_index st)"
    by blast
  from idx assms(6) indices_after_limit_zero [OF assms(1), of k]
  have idx': "(col_index st, row_index st) = (if LAYOUT cfg = ''rows'' then (0, int k) else (int k, 0))"
    by simp
  then have pos': "top_left l = (if LAYOUT cfg = ''rows'' then (0, ROW_SPACING cfg * int k)
                            else (COL_SPACING cfg * int k, 0))"
    using pos by (auto simp: coordinates_of_def split: if_splits)
  have all: "list_all can_open (accepted (pre @ File f # post))"
    using assms(2-5) by (simp add: accepted_append)
  have some: "accepted (pre @ File f # post) \<noteq> []"
    using assms(3) by (simp add: accepted_append)
  from createSprite_folder_sprite [OF all some, of cfg asked]
  have "\<exists>out. createSprite_folder cfg asked (pre @ File f # post) = Inr out" by blast
  with nan run idx' rest pos' show ?thesis by blast
qed

theorem limit_zero_never_wraps_witness:
  "LIMIT (default_config\<lparr>LIMIT := 0\<rparr>) = 0
   \<and> list_all can_open (accepted (take 5 sample_folder))
   \<and> valid_image (picture ''icon4.jpeg'')
   \<and> list_all can_open (accepted [picture ''icon5.tif''])
   \<and> length (accepted (take 5 sample_folder)) = 3
   \<and> js_rem 3 (LIMIT (default_config\<lparr>LIMIT := 0\<rparr>)) = None
   \<and> (\<exists>st st' doc l ls.
         createSprite_loop (default_config\<lparr>LIMIT := 0\<rparr>) (take 5 sample_folder) initial_state = Inr st
       \<and> col_index st = 3 \<and> row_index st = 0
       \<and> createSprite_body (default_config\<lparr>LIMIT := 0\<rparr>) (picture ''icon4.jpeg'') st = Inr st'
       \<and> new_doc st' = Some doc \<and> layers doc = l # ls \<and> name l = ''icon4''
       \<and> top_left l = (300, 0))
   \<and> (\<exists>out. createSprite_folder (default_config\<lparr>LIMIT := 0\<rparr>) 0
                (take 5 sample_folder @ picture ''icon4.jpeg'' # [picture ''icon5.tif'']) = Inr out)"
proof -
  let ?cfg = "default_config\<lparr>LIMIT := 0\<rparr>"
  let ?f = "\<lparr>file_name = ''icon4.jpeg'', art = Some (3, 4, 19, 20)\<rparr>"
  have limit: "LIMIT ?cfg = 0" and layout: "LAYOUT ?cfg \<noteq> ''rows''"
    and spacing: "COL_SPACING ?cfg = 100" "ROW_SPACING ?cfg = 50"
    by (simp_all add: default_config_def)
  have opened: "list_all can_open (accepted (take 5 sample_folder))" by code_simp
  have valid: "valid_image (File ?f)" by code_simp
  have can: "can_open ?f" by (simp add: can_open_def)
  have later: "list_all can_open (accepted [picture ''icon5.tif''])" by code_simp
  have count: "3 = length (accepted (take 5 sample_folder))" by code_simp
  have named: "layer_name ?f = ''icon4''" by code_simp
  note inst = limit_zero_never_wraps [OF limit opened valid can later count, of 0]
  from inst have nan: "js_rem 3 (LIMIT ?cfg) = None" by blast
  from inst obtain st st' doc l ls
    where "createSprite_loop ?cfg (take 5 sample_folder) initial_state = Inr st"
      "(col_index st, row_index st) = (if LAYOUT ?cfg = ''rows'' then (0, int 3) else (int 3, 0))"
      "createSprite_body ?cfg (File ?f) st = Inr st'"
      "new_doc st' = Some doc" "layers doc = l # ls" "name l = layer_name ?f"
      "top_left l = (if LAYOUT ?cfg = ''rows'' then (0, ROW_SPACING ?cfg * int 3)
                     else (COL_SPACING ?cfg * int 3, 0))"
    by blast
  then have placed: "\<exists>st st' doc l ls.
         createSprite_loop ?cfg (take 5 sample_folder) initial_state = Inr st
       \<and> col_index st = 3 \<and> row_index st = 0
       \<and> createSprite_body ?cfg (picture ''icon4.jpeg'') st = Inr st'
       \<and> new_doc st' = Some doc \<and> layers doc = l # ls \<and> name l = ''icon4''
       \<and> top_left l = (300, 0)"
    unfolding named spacing picture_def using layout by auto
  from inst have "\<exists>out. createSprite_folder ?cfg 0
      (take 5 sample_folder @ picture ''icon4.jpeg'' # [picture ''icon5.tif'']) = Inr out"
    unfolding picture_def by blast
  with limit opened valid later count nan placed show ?thesis
    by (simp add: picture_def)
qed


section \<open>The exported text\<close>

text \<open>
  C7. When the lower-case output format is \<open>json\<close>, the console receives the line \<open>[\<close>,
  then for each layer one line with the object of its name, its left edge and its top
  edge, the edges as quoted texts and the top edge behind a minus sign, with a comma
  between two objects and none after the last, then the line \<open>]\<close>. The other format
  puts the minus sign before the top edge as well.
\<close>

theorem json_output_shape:
  \<open>(toLowerCase (OUTPUT_FORMAT cfg) = ''json'' \<longrightarrow>
      outputCoordinates cfg doc =
        line ''[''
          @ comma_separated
              (map (\<lambda>l. line (''{"layer": "'' @ name l @ ''", "x": "'' @ x_text l
                                @ ''", "y": "-'' @ y_text l @ ''"}''))
                 (rev (layers doc)))
          @ line '']'')
   \<and> (toLowerCase (OUTPUT_FORMAT cfg) \<noteq> ''json'' \<longrightarrow>
      outputCoordinates cfg doc =
        concat (map (\<lambda>l. line (''.'' @ name l @ '' {background-position: -'' @ x_text l
                                @ '' -'' @ y_text l @ '';}''))
                 (rev (layers doc))))
   \<and> comma_separated [a, b, c] = a @ '','' @ b @ '','' @ c\<close>
  by (simp add: outputCoordinates_json_text outputCoordinates_css_text json_text_def css_text_def
      json_object_def css_rule_def)

theorem json_output_shape_witness:
  \<open>toLowerCase (OUTPUT_FORMAT (default_config\<lparr>OUTPUT_FORMAT := ''Json''\<rparr>)) = ''json''
   \<and> outputCoordinates (default_config\<lparr>OUTPUT_FORMAT := ''Json''\<rparr>) sample_sprite =
       line ''['' @ line ''{"layer": "a", "x": "0px", "y": "-0px"}'' @ '',''
         @ line ''{"layer": "b", "x": "0px", "y": "-50px"}'' @ line '']''
   \<and> toLowerCase (OUTPUT_FORMAT default_config) \<noteq> ''json''
   \<and> outputCoordinates default_config sample_sprite =
       line ''.a {background-position: -0px -0px;}'' @ line ''.b {background-position: -0px -50px;}''\<close>
proof -
  let ?cfg = "default_config\<lparr>OUTPUT_FORMAT := ''Json''\<rparr>"
  have json: "toLowerCase (OUTPUT_FORMAT ?cfg) = ''json''" by code_simp
  have css: "toLowerCase (OUTPUT_FORMAT default_config) \<noteq> ''json''" by code_simp
  have texts: "x_text \<lparr>name = ''a'', bounds = (0, 0, 16, 16)\<rparr> = ''0px''"
    "y_text \<lparr>name = ''a'', bounds = (0, 0, 16, 16)\<rparr> = ''0px''"
    "x_text \<lparr>name = ''b'', bounds = (0, 50, 16, 66)\<rparr> = ''0px''"
    "y_text \<lparr>name = ''b'', bounds = (0, 50, 16, 66)\<rparr> = ''50px''"
    by code_simp+
  from json_output_shape [of ?cfg sample_sprite "[]" "[]" "[]"] json
  have first: \<open>outputCoordinates ?cfg sample_sprite =
       line ''['' @ line ''{"layer": "a", "x": "0px", "y": "-0px"}'' @ '',''
         @ line ''{"layer": "b", "x": "0px", "y": "-50px"}'' @ line '']''\<close>
    by (simp add: sample_sprite_def texts)
  from json_output_shape [of default_config sample_sprite "[]" "[]" "[]"] css
  have second: \<open>outputCoordinates default_config sample_sprite =
       line ''.a {background-position: -0px -0px;}'' @ line ''.b {background-position: -0px -50px;}''\<close>
    by (simp add: sample_sprite_def texts)
  from json css first second show ?thesis by blast
qed


section \<open>Values that are not recognised\<close>

lemma update_indices_default_layout:
  "LAYOUT cfg \<noteq> ''rows'' \<Longrightarrow> update_indices cfg st = update_indices (cfg\<lparr>LAYOUT := ''cols''\<rparr>) st"
  by (simp add: update_indices_def)

lemma createSprite_body_default_layout:
  "LAYOUT cfg \<noteq> ''rows'' \<Longrightarrow>
   createSprite_body cfg e st = createSprite_body (cfg\<lparr>LAYOUT := ''cols''\<rparr>) e st"
  by (auto simp: createSprite_body_def update_indices_def Let_def
      split: entry.splits option.splits sum.splits)

lemma createSprite_loop_default_layout:
  assumes "LAYOUT cfg \<noteq> ''rows''"
  shows "createSprite_loop cfg es st = createSprite_loop (cfg\<lparr>LAYOUT := ''cols''\<rparr>) es st"
proof (induction es arbitrary: st)
  case Nil
  show ?case by simp
next
  case (Cons e es)
  have step: "createSprite_body cfg e st = createSprite_body (cfg\<lparr>LAYOUT := ''cols''\<rparr>) e st"
    using assms by (rule createSprite_body_default_layout)
  show ?case
  proof (cases "createSprite_body (cfg\<lparr>LAYOUT := ''cols''\<rparr>) e st")
    case (Inl err)
    then show ?thesis by (simp add: step)
  next
    case (Inr st')
    then show ?thesis by (simp add: step Cons.IH)
  qed
qed

text \<open>
  C9. Values that are not recognised are not rejected. Every output format whose
  lower-case form is not \<open>json\<close> gives the style sheet rules, and the format is compared
  after lower-casing, so \<open>JSON\<close> gives the objects. Every layout other than the exact
  text \<open>rows\<close>, \<open>ROWS\<close> among them, makes the loop over the folder run as under \<open>cols\<close>.
\<close>

theorem unrecognised_values_fall_back:
  "(toLowerCase (OUTPUT_FORMAT cfg) \<noteq> ''json'' \<longrightarrow>
      outputCoordinates cfg doc = css_text (rev (layers doc)))
   \<and> (toLowerCase (OUTPUT_FORMAT cfg) = ''json'' \<longrightarrow>
      outputCoordinates cfg doc = json_text (rev (layers doc)))
   \<and> (LAYOUT cfg \<noteq> ''rows'' \<longrightarrow>
      update_indices cfg st = update_indices (cfg\<lparr>LAYOUT := ''cols''\<rparr>) st
      \<and> createSprite_loop cfg doc_list st = createSprite_loop (cfg\<lparr>LAYOUT := ''cols''\<rparr>) doc_list st)
   \<and> toLowerCase ''JSON'' = ''json'' \<and> ''ROWS'' \<noteq> ''rows''"
proof -
  have lowered: "toLowerCase ''JSON'' = ''json''" by code_simp
  have distinct: "''ROWS'' \<noteq> ''rows''" by simp
  show ?thesis
    by (intro conjI impI outputCoordinates_css_text outputCoordinates_json_text
        update_indices_default_layout createSprite_loop_default_layout lowered distinct)
qed

theorem unrecognised_values_fall_back_witness:
  "toLowerCase (OUTPUT_FORMAT (default_config\<lparr>LAYOUT := ''ROWS'', LIMIT := 2, OUTPUT_FORMAT := ''xml''\<rparr>)) \<noteq> ''json''
   \<and> outputCoordinates (default_config\<lparr>LAYOUT := ''ROWS'', LIMIT := 2, OUTPUT_FORMAT := ''xml''\<rparr>) sample_sprite
       = css_text (rev (layers sample_sprite))
   \<and> toLowerCase (OUTPUT_FORMAT (default_config\<lparr>OUTPUT_FORMAT := ''JSON''\<rparr>)) = ''json''
   \<and> outputCoordinates (default_config\<lparr>OUTPUT_FORMAT := ''JSON''\<rparr>) sample_sprite
       = json_text (rev (layers sample_sprite))
   \<and> LAYOUT (default_config\<lparr>LAYOUT := ''ROWS'', LIMIT := 2, OUTPUT_FORMAT := ''xml''\<rparr>) \<noteq> ''rows''
   \<and> createSprite_loop (default_config\<lparr>LAYOUT := ''ROWS'', LIMIT := 2, OUTPUT_FORMAT := ''xml''\<rparr>)
         sample_folder initial_state
       = createSprite_loop
           ((default_config\<lparr>LAYOUT := ''ROWS'', LIMIT := 2, OUTPUT_FORMAT := ''xml''\<rparr>)\<lparr>LAYOUT := ''cols''\<rparr>)
           sample_folder initial_state
   \<and> (\<exists>st. createSprite_loop (default_config\<lparr>LAYOUT := ''ROWS'', LIMIT := 2, OUTPUT_FORMAT := ''xml''\<rparr>)
           sample_folder initial_state = Inr st \<and> col_index st = 1 \<and> row_index st = 2)"
proof -
  let ?cfg = "default_config\<lparr>LAYOUT := ''ROWS'', LIMIT := 2, OUTPUT_FORMAT := ''xml''\<rparr>"
  let ?json = "default_config\<lparr>OUTPUT_FORMAT := ''JSON''\<rparr>"
  have xml: "toLowerCase (OUTPUT_FORMAT ?cfg) \<noteq> ''json''" by code_simp
  have json: "toLowerCase (OUTPUT_FORMAT ?json) = ''json''" by code_simp
  have layout: "LAYOUT ?cfg \<noteq> ''rows''" by simp
  have limit: "0 < LIMIT ?cfg" by simp
  have opened: "list_all can_open (accepted sample_folder)" by code_simp
  have count: "length (accepted sample_folder) = 5" by code_simp
  from createSprite_loop_accepted [OF opened, of ?cfg] obtain st
    where st: "createSprite_loop ?cfg sample_folder initial_state = Inr st"
      and inv: "sprite_invariant ?cfg (accepted sample_folder) st" by blast
  have "indices_after ?cfg 5 = (int 5 mod LIMIT ?cfg, int 5 div LIMIT ?cfg)"
    using layout limit by (rule indices_after_cols)
  with sprite_invariant_indices [OF inv] count have "col_index st = 1 \<and> row_index st = 2"
    by simp
  with st have final: "\<exists>st. createSprite_loop ?cfg sample_folder initial_state = Inr st
      \<and> col_index st = 1 \<and> row_index st = 2"
    by blast
  note fallback = unrecognised_values_fall_back [of ?cfg sample_sprite initial_state sample_folder]
  note lowered = unrecognised_values_fall_back [of ?json sample_sprite initial_state sample_folder]
  have css: "outputCoordinates ?cfg sample_sprite = css_text (rev (layers sample_sprite))"
    by (rule fallback [THEN conjunct1, rule_format, OF xml])
  have objects: "outputCoordinates ?json sample_sprite = json_text (rev (layers sample_sprite))"
    by (rule lowered [THEN conjunct2, THEN conjunct1, rule_format, OF json])
  have same: "createSprite_loop ?cfg sample_folder initial_state
       = createSprite_loop (?cfg\<lparr>LAYOUT := ''cols''\<rparr>) sample_folder initial_state"
    by (rule fallback [THEN conjunct2, THEN conjunct2, THEN conjunct1, rule_format, OF layout,
          THEN conjunct2])
  show ?thesis
    by (intro conjI xml css json objects layout same final)
qed


section \<open>The order of the exported records\<close>

lemma outputCoordinates_text:
  "outputCoordinates cfg doc =
     (if toLowerCase (OUTPUT_FORMAT cfg) = ''json'' then json_text (rev (layers doc))
      else css_text (rev (layers doc)))"
  by (simp add: outputCoordinates_json_text outputCoordinates_css_text)

text \<open>
  C3 as the script behaves. \<open>addLayer\<close> puts each new layer at index 0, so the layers
  of the sprite are listed from the image accepted last (topmost) to the one accepted
  first, and \<open>outputCoordinates\<close> walks them from the last index down to index 0. The
  console therefore gets one record per layer from the bottommost layer to the topmost
  one, which is the order in which the images were added.
\<close>

theorem export_order_bottom_up:
  assumes "list_all can_open (accepted doc_list)" and "accepted doc_list \<noteq> []"
  shows "\<exists>doc.
           createSprite_folder cfg asked doc_list =
             Inr \<lparr>prompts = asked, canvases = 1, sprite = Some doc,
                  console = outputCoordinates cfg doc\<rparr>
         \<and> map name (layers doc) = rev (map layer_name (accepted doc_list))
         \<and> outputCoordinates cfg doc =
             (if toLowerCase (OUTPUT_FORMAT cfg) = ''json'' then json_text (rev (layers doc))
              else css_text (rev (layers doc)))
         \<and> map name (rev (layers doc)) = map layer_name (accepted doc_list)"
proof -
  from createSprite_folder_sprite [OF assms, of cfg asked] obtain doc
    where run: "createSprite_folder cfg asked doc_list =
             Inr \<lparr>prompts = asked, canvases = 1, sprite = Some doc,
                  console = outputCoordinates cfg doc\<rparr>"
      and names: "map name (layers doc) = rev (map layer_name (accepted doc_list))"
    by blast
  have "map name (rev (layers doc)) = rev (map name (layers doc))"
    by (rule rev_map [symmetric])
  also have "\<dots> = map layer_name (accepted doc_list)"
    by (simp only: names rev_rev_ident)
  finally have "map name (rev (layers doc)) = map layer_name (accepted doc_list)" .
  with run names outputCoordinates_text [of cfg doc] show ?thesis by blast
qed

theorem export_order_bottom_up_witness:
  \<open>list_all can_open (accepted [picture ''a.png'', picture ''b.png''])
   \<and> accepted [picture ''a.png'', picture ''b.png''] \<noteq> []
   \<and> (\<exists>doc.
         createSprite_folder (default_config\<lparr>OUTPUT_FORMAT := ''json''\<rparr>) 0
             [picture ''a.png'', picture ''b.png''] =
           Inr \<lparr>prompts = 0, canvases = 1, sprite = Some doc,
                console = outputCoordinates (default_config\<lparr>OUTPUT_FORMAT := ''json''\<rparr>) doc\<rparr>
       \<and> map name (layers doc) = [''b'', ''a'']
       \<and> map name (rev (layers doc)) = [''a'', ''b''])\<close>
proof -
  let ?folder = "[picture ''a.png'', picture ''b.png'']"
  let ?cfg = "default_config\<lparr>OUTPUT_FORMAT := ''json''\<rparr>"
  have opened: "list_all can_open (accepted ?folder)" by code_simp
  have some: "accepted ?folder \<noteq> []" by code_simp
  have names: "map layer_name (accepted ?folder) = [''a'', ''b'']" by code_simp
  from export_order_bottom_up [OF opened some, of ?cfg 0] obtain doc
    where "createSprite_folder ?cfg 0 ?folder =
           Inr \<lparr>prompts = 0, canvases = 1, sprite = Some doc,
                console = outputCoordinates ?cfg doc\<rparr>"
      "map name (layers doc) = rev (map layer_name (accepted ?folder))"
      "map name (rev (layers doc)) = map layer_name (accepted ?folder)"
    by blast
  then have "\<exists>doc.
         createSprite_folder ?cfg 0 ?folder =
           Inr \<lparr>prompts = 0, canvases = 1, sprite = Some doc,
                console = outputCoordinates ?cfg doc\<rparr>
       \<and> map name (layers doc) = [''b'', ''a'']
       \<and> map name (rev (layers doc)) = [''a'', ''b'']"
    unfolding names by auto
  with opened some show ?thesis by (intro conjI)
qed

text \<open>
  The claim C3 fails on two layers: \<open>a.png\<close> is added first and \<open>b.png\<close> second, so
  \<open>b\<close> is the topmost layer, and in \<open>json\<close> mode the object of \<open>a\<close> is written before
  the object of \<open>b\<close>; the text with the topmost layer first is not what is written.
\<close>

theorem export_order_counterexample:
  \<open>createSprite_folder (default_config\<lparr>OUTPUT_FORMAT := ''json''\<rparr>) 0
       [picture ''a.png'', picture ''b.png''] =
     Inr \<lparr>prompts = 0, canvases = 1, sprite = Some sample_sprite,
          console =
            line ''['' @ line ''{"layer": "a", "x": "0px", "y": "-0px"}'' @ '',''
              @ line ''{"layer": "b", "x": "0px", "y": "-50px"}'' @ line '']''\<rparr>
   \<and> map name (layers sample_sprite) = [''b'', ''a'']
   \<and> outputCoordinates (default_config\<lparr>OUTPUT_FORMAT := ''json''\<rparr>) sample_sprite
       \<noteq> json_text (layers sample_sprite)\<close>
proof -
  have run: \<open>createSprite_folder (default_config\<lparr>OUTPUT_FORMAT := ''json''\<rparr>) 0
       [picture ''a.png'', picture ''b.png''] =
     Inr \<lparr>prompts = 0, canvases = 1, sprite = Some sample_sprite,
          console =
            line ''['' @ line ''{"layer": "a", "x": "0px", "y": "-0px"}'' @ '',''
              @ line ''{"layer": "b", "x": "0px", "y": "-50px"}'' @ line '']''\<rparr>\<close>
    by code_simp
  have order: "map name (layers sample_sprite) = [''b'', ''a'']"
    by (simp add: sample_sprite_def)
  have differ: "outputCoordinates (default_config\<lparr>OUTPUT_FORMAT := ''json''\<rparr>) sample_sprite
       \<noteq> json_text (layers sample_sprite)"
    by code_simp
  from run order differ show ?thesis by (intro conjI)
qed


section \<open>The canvas\<close>

lemma createSprite_loop_rejected:
  "accepted es = [] \<Longrightarrow> createSprite_loop cfg es st = Inr st"
proof (induction es arbitrary: st)
  case Nil
  show ?case by simp
next
  case (Cons e es)
  from Cons.prems have rejected: "\<not> valid_image e" and rest: "accepted es = []"
    by (cases e; simp split: if_splits)+
  from Cons.IH [OF rest] rejected show ?case
    by (simp add: body_rejected)
qed

lemma createSprite_selected:
  "createSprite env asked (Some doc_list) = Some (createSprite_folder (variables env) asked doc_list)"
  by (subst createSprite.simps) simp

lemma createSprite_declined:
  "\<not> confirm (operator env) asked \<Longrightarrow>
   createSprite env asked None =
     Some (Inr \<lparr>prompts = asked + 1, canvases = 0, sprite = None, console = []\<rparr>)"
  by (subst createSprite.simps) simp

text \<open>
  C8. The canvas of 10000 by 10000 pixels is made when the first image is accepted and
  not before: the entries before it leave the initial state, in which no document has
  been added, and its round of the loop adds the one document. A run on a folder with an
  accepted image ends with exactly one document added; a run on a folder without one
  adds no document, has no sprite and writes nothing, so neither \<open>cleanUp\<close> nor
  \<open>outputCoordinates\<close> has run; the same holds when the user declines to try again.
\<close>

theorem canvas_created_lazily:
  assumes "list_all can_open (accepted doc_list)"
  shows "(accepted doc_list = [] \<longrightarrow>
            createSprite env asked (Some doc_list) =
              Some (Inr \<lparr>prompts = asked, canvases = 0, sprite = None, console = []\<rparr>)
          \<and> createSprite_loop (variables env) doc_list initial_state = Inr initial_state)
       \<and> (accepted doc_list \<noteq> [] \<longrightarrow>
            (\<exists>doc. createSprite env asked (Some doc_list) =
               Some (Inr \<lparr>prompts = asked, canvases = 1, sprite = Some doc,
                         console = outputCoordinates (variables env) doc\<rparr>)))
       \<and> (\<forall>pre f post.
             doc_list = pre @ File f # post \<and> accepted pre = [] \<and> valid_image (File f) \<longrightarrow>
               createSprite_loop (variables env) pre initial_state = Inr initial_state
             \<and> (\<exists>st d. createSprite_body (variables env) (File f) initial_state = Inr st
                   \<and> documents_added st = 1 \<and> new_canvas st
                   \<and> new_doc st = Some d \<and> width d = 10000 \<and> height d = 10000))
       \<and> (\<not> confirm (operator env) asked \<longrightarrow>
            createSprite env asked None =
              Some (Inr \<lparr>prompts = asked + 1, canvases = 0, sprite = None, console = []\<rparr>))
       \<and> width createCanvas = 10000 \<and> height createCanvas = 10000
       \<and> documents_added initial_state = 0 \<and> new_doc initial_state = None"
proof -
  have none: "createSprite env asked (Some doc_list) =
              Some (Inr \<lparr>prompts = asked, canvases = 0, sprite = None, console = []\<rparr>)
          \<and> createSprite_loop (variables env) doc_list initial_state = Inr initial_state"
    if "accepted doc_list = []"
    using that by (simp add: createSprite_selected createSprite_folder_empty createSprite_loop_rejected)
  have some: "\<exists>doc. createSprite env asked (Some doc_list) =
               Some (Inr \<lparr>prompts = asked, canvases = 1, sprite = Some doc,
                         console = outputCoordinates (variables env) doc\<rparr>)"
    if "accepted doc_list \<noteq> []"
    using createSprite_folder_sprite [OF assms that, of "variables env" asked]
    by (auto simp: createSprite_selected)
  have first: "createSprite_loop (variables env) pre initial_state = Inr initial_state
             \<and> (\<exists>st d. createSprite_body (variables env) (File f) initial_state = Inr st
                   \<and> documents_added st = 1 \<and> new_canvas st
                   \<and> new_doc st = Some d \<and> width d = 10000 \<and> height d = 10000)"
    if split: "doc_list = pre @ File f # post" and pre: "accepted pre = []"
      and valid: "valid_image (File f)" for pre f post
  proof -
    from assms split valid have "can_open f" by (simp add: accepted_append)
    then obtain b where "art f = Some b" by (auto simp: can_open_def)
    from body_accepted [OF sprite_invariant_initial valid this, of "variables env"] obtain st
      where body: "createSprite_body (variables env) (File f) initial_state = Inr st"
        and inv: "sprite_invariant (variables env) ([] @ [f]) st" by blast
    from inv obtain d where "new_doc st = Some d" "width d = 10000" "height d = 10000"
      "documents_added st = 1" "new_canvas st"
      by (cases "new_doc st") (auto simp: sprite_invariant_def)
    with body createSprite_loop_rejected [OF pre] show ?thesis by blast
  qed
  have canvas: "width createCanvas = 10000 \<and> height createCanvas = 10000
       \<and> documents_added initial_state = 0 \<and> new_doc initial_state = None"
    by (simp add: createCanvas_def initial_state_def)
  from none some first createSprite_declined [of env asked] canvas show ?thesis
    by blast
qed

theorem canvas_created_lazily_witness:
  "list_all can_open (accepted [picture ''readme.txt'', Folder ''icons''])
   \<and> accepted [picture ''readme.txt'', Folder ''icons''] = []
   \<and> createSprite \<lparr>variables = default_config\<lparr>OUTPUT_FORMAT := ''json''\<rparr>,
                    operator = \<lparr>getFolder = (\<lambda>n. None), confirm = (\<lambda>n. False)\<rparr>\<rparr>
        0 (Some [picture ''readme.txt'', Folder ''icons'']) =
       Some (Inr \<lparr>prompts = 0, canvases = 0, sprite = None, console = []\<rparr>)
   \<and> list_all can_open (accepted sample_folder)
   \<and> accepted sample_folder \<noteq> []
   \<and> (\<exists>doc. createSprite \<lparr>variables = default_config,
                    operator = \<lparr>getFolder = (\<lambda>n. None), confirm = (\<lambda>n. False)\<rparr>\<rparr>
        0 (Some sample_folder) =
       Some (Inr \<lparr>prompts = 0, canvases = 1, sprite = Some doc,
                 console = outputCoordinates default_config doc\<rparr>))
   \<and> createSprite \<lparr>variables = default_config,
                    operator = \<lparr>getFolder = (\<lambda>n. None), confirm = (\<lambda>n. False)\<rparr>\<rparr>
        0 None =
       Some (Inr \<lparr>prompts = 1, canvases = 0, sprite = None, console = []\<rparr>)"
proof -
  let ?empty = "[picture ''readme.txt'', Folder ''icons'']"
  let ?u = "\<lparr>getFolder = (\<lambda>n. None), confirm = (\<lambda>n. False)\<rparr>"
  let ?json = "\<lparr>variables = default_config\<lparr>OUTPUT_FORMAT := ''json''\<rparr>, operator = ?u\<rparr>"
  let ?env = "\<lparr>variables = default_config, operator = ?u\<rparr>"
  have opened0: "list_all can_open (accepted ?empty)" by code_simp
  have none: "accepted ?empty = []" by code_simp
  have opened: "list_all can_open (accepted sample_folder)" by code_simp
  have some: "accepted sample_folder \<noteq> []" by code_simp
  have declines: "\<not> confirm (operator ?env) 0" by simp
  note skipped = canvas_created_lazily [OF opened0, of ?json 0]
  note made = canvas_created_lazily [OF opened, of ?env 0]
  have a: "createSprite ?json 0 (Some ?empty) =
       Some (Inr \<lparr>prompts = 0, canvases = 0, sprite = None, console = []\<rparr>)"
    by (rule skipped [THEN conjunct1, rule_format, OF none, THEN conjunct1])
  have "\<exists>doc. createSprite ?env 0 (Some sample_folder) =
       Some (Inr \<lparr>prompts = 0, canvases = 1, sprite = Some doc,
                 console = outputCoordinates (variables ?env) doc\<rparr>)"
    by (rule made [THEN conjunct2, THEN conjunct1, rule_format, OF some])
  then have b: "\<exists>doc. createSprite ?env 0 (Some sample_folder) =
       Some (Inr \<lparr>prompts = 0, canvases = 1, sprite = Some doc,
                 console = outputCoordinates default_config doc\<rparr>)"
    by simp
  have "createSprite ?env 0 None =
       Some (Inr \<lparr>prompts = 0 + 1, canvases = 0, sprite = None, console = []\<rparr>)"
    by (rule made [THEN conjunct2, THEN conjunct2, THEN conjunct2, THEN conjunct1, rule_format,
          OF declines])
  then have c: "createSprite ?env 0 None =
       Some (Inr \<lparr>prompts = 1, canvases = 0, sprite = None, console = []\<rparr>)"
    by simp
  show ?thesis
    by (intro conjI opened0 none a opened some b c)
qed


section \<open>The user variables are not checked\<close>





section \<open>Folders without images\<close>

text \<open>
  C4 on the script. The question whether to select another folder is asked only when no
  folder was selected. A selected folder without any supported image ends the run at
  once: no question is asked, even for a user who would agree to try again, and nothing
  is made or written. When the folder dialog is cancelled the question is asked, and a
  folder without images chosen on the second attempt again ends the run silently.
\<close>

theorem folder_without_images_not_reprompted:
  "run \<lparr>variables = default_config,
        operator = \<lparr>getFolder = (\<lambda>n. Some [picture ''readme.txt'', Folder ''icons'']),
                    confirm = (\<lambda>n. True)\<rparr>\<rparr>
     = Some (Inr \<lparr>prompts = 0, canvases = 0, sprite = None, console = []\<rparr>)
   \<and> run \<lparr>variables = default_config,
          operator = \<lparr>getFolder = (\<lambda>n. None), confirm = (\<lambda>n. False)\<rparr>\<rparr>
     = Some (Inr \<lparr>prompts = 1, canvases = 0, sprite = None, console = []\<rparr>)
   \<and> run \<lparr>variables = default_config,
          operator = \<lparr>getFolder = (\<lambda>n. if n = 0 then None
                                          else Some [picture ''readme.txt'', Folder ''icons'']),
                      confirm = (\<lambda>n. True)\<rparr>\<rparr>
     = Some (Inr \<lparr>prompts = 1, canvases = 0, sprite = None, console = []\<rparr>)"
proof -
  have none: "accepted [picture ''readme.txt'', Folder ''icons''] = []" by code_simp
  have selected: "run \<lparr>variables = default_config,
        operator = \<lparr>getFolder = (\<lambda>n. Some [picture ''readme.txt'', Folder ''icons'']),
                    confirm = (\<lambda>n. True)\<rparr>\<rparr>
     = Some (Inr \<lparr>prompts = 0, canvases = 0, sprite = None, console = []\<rparr>)"
    by (simp add: run_def createSprite_selected createSprite_folder_empty [OF none])
  have cancelled: "run \<lparr>variables = default_config,
          operator = \<lparr>getFolder = (\<lambda>n. None), confirm = (\<lambda>n. False)\<rparr>\<rparr>
     = Some (Inr \<lparr>prompts = 1, canvases = 0, sprite = None, console = []\<rparr>)"
    by (simp add: run_def createSprite_declined)
  have retried: "run \<lparr>variables = default_config,
          operator = \<lparr>getFolder = (\<lambda>n. if n = 0 then None
                                          else Some [picture ''readme.txt'', Folder ''icons'']),
                      confirm = (\<lambda>n. True)\<rparr>\<rparr>
     = Some (Inr \<lparr>prompts = 1, canvases = 0, sprite = None, console = []\<rparr>)"
    unfolding run_def
    by (subst createSprite.simps)
       (simp add: createSprite_selected createSprite_folder_empty [OF none])
  show ?thesis
    by (intro conjI selected cancelled retried)
qed

end
